theory Spec2Isabelle
  imports Complex_Main
begin

section \<open>Python values and exceptions\<close>

text \<open>
  The program is \<^verbatim>\<open>snapchat_dlp/snapchat_dlp.py\<close>: class \<^verbatim>\<open>SnapchatDL\<close> with the methods
  \<^verbatim>\<open>_web_fetch_story\<close>, \<^verbatim>\<open>_download_media\<close> and \<^verbatim>\<open>download\<close>.  The values it handles are the
  results of \<^verbatim>\<open>json.loads\<close>: \<^verbatim>\<open>None\<close>, booleans, unbounded integers, floats, strings, lists and
  dictionaries with string keys.  A dictionary is kept as its list of items, looked up by key.
  A character is a code point below 256.
\<close>

datatype pyfloat = Finite real | PosInf | NegInf | NaN

datatype json =
    JNull
  | JBool bool
  | JInt int
  | JFloat pyfloat
  | JStr string
  | JList "json list"
  | JObj "(string \<times> json) list"

text \<open>
  Modelled from the spec: \<^verbatim>\<open>APIResponseError\<close> and \<^verbatim>\<open>UserNotFoundError\<close> are declared in
  \<^verbatim>\<open>snapchat_dlp/utils.py\<close>, which is not among the sources.  They are taken as two separate
  exception kinds, neither a subclass of the other nor of a built-in class that the program
  catches, as the error taxonomy of the specification lists them
  (\<^verbatim>\<open>NotFoundError\<close> and \<^verbatim>\<open>MalformedResponseError\<close>).

  The other constructors are the built-in exceptions that the operations of the program raise.
  \<^verbatim>\<open>json.JSONDecodeError\<close> is a subclass of \<^verbatim>\<open>ValueError\<close> and is caught as one, so it is
  represented by \<open>ValueError\<close>.
\<close>

datatype exn =
    APIResponseError
  | UserNotFoundError
  | IndexError
  | KeyError
  | ValueError
  | TypeError
  | OverflowError
  | OSError

definition and_then :: "exn + 'a \<Rightarrow> ('a \<Rightarrow> exn + 'b) \<Rightarrow> exn + 'b" where
  "and_then r f = (case r of Inl e \<Rightarrow> Inl e | Inr v \<Rightarrow> f v)"

subsection \<open>Subscription, membership, truth value, length, iteration\<close>

definition list_getitem :: "'a list \<Rightarrow> int \<Rightarrow> exn + 'a" where
  \<comment> \<open>\<^verbatim>\<open>xs[i]\<close>: a negative index counts from the end\<close>
  "list_getitem xs i =
     (if 0 \<le> i \<and> i < int (length xs) then Inr (xs ! nat i)
      else if i < 0 \<and> - int (length xs) \<le> i then Inr (xs ! nat (int (length xs) + i))
      else Inl IndexError)"

fun as_index :: "json \<Rightarrow> int option" where
  "as_index (JInt i) = Some i"
| "as_index (JBool b) = Some (if b then 1 else 0)"
| "as_index _ = None"

fun py_getitem :: "json \<Rightarrow> json \<Rightarrow> exn + json" where
  "py_getitem (JObj kvs) (JStr k) =
     (case map_of kvs k of None \<Rightarrow> Inl KeyError | Some v \<Rightarrow> Inr v)"
| "py_getitem (JObj kvs) (JList ks) = Inl TypeError"
| "py_getitem (JObj kvs) (JObj ks) = Inl TypeError"
| "py_getitem (JObj kvs) k = Inl KeyError"
| "py_getitem (JList xs) k =
     (case as_index k of None \<Rightarrow> Inl TypeError | Some i \<Rightarrow> list_getitem xs i)"
| "py_getitem (JStr s) k =
     (case as_index k of None \<Rightarrow> Inl TypeError
      | Some i \<Rightarrow> and_then (list_getitem s i) (\<lambda>c. Inr (JStr [c])))"
| "py_getitem v k = Inl TypeError"

fun is_substr :: "string \<Rightarrow> string \<Rightarrow> bool" where
  "is_substr k [] = (k = [])"
| "is_substr k (c # cs) = (take (length k) (c # cs) = k \<or> is_substr k cs)"

fun py_contains :: "string \<Rightarrow> json \<Rightarrow> exn + bool" where
  \<comment> \<open>\<^verbatim>\<open>"k" in v\<close>\<close>
  "py_contains k (JObj kvs) = Inr (k \<in> set (map fst kvs))"
| "py_contains k (JList xs) = Inr (JStr k \<in> set xs)"
| "py_contains k (JStr s) = Inr (is_substr k s)"
| "py_contains k v = Inl TypeError"

fun py_truthy :: "json \<Rightarrow> bool" where
  "py_truthy JNull = False"
| "py_truthy (JBool b) = b"
| "py_truthy (JInt i) = (i \<noteq> 0)"
| "py_truthy (JFloat f) = (f \<noteq> Finite 0)"
| "py_truthy (JStr s) = (s \<noteq> [])"
| "py_truthy (JList xs) = (xs \<noteq> [])"
| "py_truthy (JObj kvs) = (kvs \<noteq> [])"

fun py_len :: "json \<Rightarrow> exn + nat" where
  "py_len (JStr s) = Inr (length s)"
| "py_len (JList xs) = Inr (length xs)"
| "py_len (JObj kvs) = Inr (length kvs)"
| "py_len v = Inl TypeError"

fun py_iter :: "json \<Rightarrow> exn + json list" where
  \<comment> \<open>the values that \<^verbatim>\<open>for x in v\<close> binds, in order\<close>
  "py_iter (JList xs) = Inr xs"
| "py_iter (JObj kvs) = Inr (map (\<lambda>kv. JStr (fst kv)) kvs)"
| "py_iter (JStr s) = Inr (map (\<lambda>c. JStr [c]) s)"
| "py_iter v = Inl TypeError"

subsection \<open>Conversion to an integer\<close>

definition int_space :: "char \<Rightarrow> bool" where
  \<comment> \<open>the characters that \<^verbatim>\<open>int()\<close> strips from both ends of a string\<close>
  "int_space c = (c \<in> set [CHR 0x09, CHR 0x0A, CHR 0x0B, CHR 0x0C, CHR 0x0D, CHR 0x20,
                           CHR 0x85, CHR 0xA0])"

definition digit_val :: "char \<Rightarrow> nat option" where
  "digit_val c =
     (let n = (of_char c :: nat) in if 48 \<le> n \<and> n \<le> 57 then Some (n - 48) else None)"

fun digits_acc :: "nat \<Rightarrow> string \<Rightarrow> nat option" where
  \<comment> \<open>the rest of a digit string after a digit: digits, each optionally preceded by one underscore\<close>
  "digits_acc n [] = Some n"
| "digits_acc n [c] = (case digit_val c of None \<Rightarrow> None | Some v \<Rightarrow> Some (10 * n + v))"
| "digits_acc n (c # d # cs) =
     (if c = CHR ''_'' then
        (case digit_val d of None \<Rightarrow> None | Some v \<Rightarrow> digits_acc (10 * n + v) cs)
      else
        (case digit_val c of None \<Rightarrow> None | Some v \<Rightarrow> digits_acc (10 * n + v) (d # cs)))"

definition unsigned_of_str :: "string \<Rightarrow> nat option" where
  "unsigned_of_str s =
     (case s of [] \<Rightarrow> None
      | c # cs \<Rightarrow> (case digit_val c of None \<Rightarrow> None | Some v \<Rightarrow> digits_acc v cs))"

definition int_of_str :: "string \<Rightarrow> int option" where
  "int_of_str s =
     (let t = rev (dropWhile int_space (rev (dropWhile int_space s)))
      in case t of
           [] \<Rightarrow> None
         | c # cs \<Rightarrow>
             if c = CHR ''+'' then map_option int (unsigned_of_str cs)
             else if c = CHR ''-'' then map_option (\<lambda>n. - int n) (unsigned_of_str cs)
             else map_option int (unsigned_of_str t))"

fun py_int :: "json \<Rightarrow> exn + int" where
  \<comment> \<open>\<^verbatim>\<open>int(v)\<close>\<close>
  "py_int (JInt i) = Inr i"
| "py_int (JBool b) = Inr (if b then 1 else 0)"
| "py_int (JFloat (Finite r)) = Inr (if 0 \<le> r then \<lfloor>r\<rfloor> else \<lceil>r\<rceil>)"
| "py_int (JFloat NaN) = Inl ValueError"
| "py_int (JFloat f) = Inl OverflowError"
| "py_int (JStr s) = (case int_of_str s of None \<Rightarrow> Inl ValueError | Some i \<Rightarrow> Inr i)"
| "py_int v = Inl TypeError"

subsection \<open>Text of a value\<close>

definition digit_char :: "nat \<Rightarrow> char" where
  "digit_char d = ''0123456789'' ! d"

definition is_digit :: "char \<Rightarrow> bool" where
  "is_digit c = (c \<in> set ''0123456789'')"

fun show_nat :: "nat \<Rightarrow> string" where
  "show_nat n =
     (if n < 10 then [digit_char n] else show_nat (n div 10) @ [digit_char (n mod 10)])"

declare show_nat.simps [simp del]

definition show_int :: "int \<Rightarrow> string" where
  "show_int i = (if i < 0 then CHR ''-'' # show_nat (nat (- i)) else show_nat (nat i))"

fun py_format :: "(json \<Rightarrow> string) \<Rightarrow> json \<Rightarrow> string" where
  \<comment> \<open>the text that \<^verbatim>\<open>"{}".format(v)\<close> puts in place of the field; \<open>repr_other\<close> stands for
      Python's \<^verbatim>\<open>repr\<close> of floats, lists and dictionaries\<close>
  "py_format repr_other (JStr s) = s"
| "py_format repr_other (JInt i) = show_int i"
| "py_format repr_other (JBool b) = (if b then ''True'' else ''False'')"
| "py_format repr_other JNull = ''None''"
| "py_format repr_other v = repr_other v"

fun str_format :: "string \<Rightarrow> string list \<Rightarrow> exn + string" where
  \<comment> \<open>\<^verbatim>\<open>template.format(*args)\<close> for a template whose fields are all written \<^verbatim>\<open>{}\<close>;
      \<^verbatim>\<open>{{\<close> and \<^verbatim>\<open>}}\<close> are escaped braces\<close>
  "str_format [] args = Inr []"
| "str_format [c] args = (if c = CHR ''{'' \<or> c = CHR ''}'' then Inl ValueError else Inr [c])"
| "str_format (c # d # cs) args =
     (if c = CHR ''{'' \<and> d = CHR ''}'' then
        (case args of
           [] \<Rightarrow> Inl IndexError
         | a # rest \<Rightarrow> and_then (str_format cs rest) (\<lambda>r. Inr (a @ r)))
      else if (c = CHR ''{'' \<and> d = CHR ''{'') \<or> (c = CHR ''}'' \<and> d = CHR ''}'') then
        and_then (str_format cs args) (\<lambda>r. Inr (c # r))
      else if c = CHR ''{'' \<or> c = CHR ''}'' then Inl ValueError
      else and_then (str_format (d # cs) args) (\<lambda>r. Inr (c # r)))"

section \<open>Library functions the program calls\<close>

subsection \<open>\<^verbatim>\<open>re.findall(self.regexp_web_json, text)\<close>\<close>

text \<open>
  The pattern is
  \<^verbatim>\<open><script\s*id="__NEXT_DATA__"\s*type="application\/json">([^<]+)<\/script>\<close>.
  Each repetition in it is followed by a character it cannot match, so the greedy match at a
  position is the only one.  \<^verbatim>\<open>findall\<close> scans from the left, returns the group of every match
  and continues behind it.
\<close>

fun strip_prefix :: "string \<Rightarrow> string \<Rightarrow> string option" where
  "strip_prefix [] s = Some s"
| "strip_prefix (p # ps) [] = None"
| "strip_prefix (p # ps) (c # cs) = (if p = c then strip_prefix ps cs else None)"

definition re_space :: "char \<Rightarrow> bool" where
  \<comment> \<open>\<^verbatim>\<open>\s\<close> on a \<^verbatim>\<open>str\<close>\<close>
  "re_space c = (c \<in> set [CHR 0x09, CHR 0x0A, CHR 0x0B, CHR 0x0C, CHR 0x0D, CHR 0x1C,
                          CHR 0x1D, CHR 0x1E, CHR 0x1F, CHR 0x20, CHR 0x85, CHR 0xA0])"

definition match_web_json :: "string \<Rightarrow> (string \<times> string) option" where
  \<comment> \<open>a match at the start of the text: the group and the text behind the match\<close>
  \<open>match_web_json s =
     (case strip_prefix ''<script'' s of None \<Rightarrow> None | Some r1 \<Rightarrow>
      case strip_prefix ''id="__NEXT_DATA__"'' (dropWhile re_space r1) of None \<Rightarrow> None | Some r2 \<Rightarrow>
      case strip_prefix ''type="application/json">'' (dropWhile re_space r2) of None \<Rightarrow> None | Some r3 \<Rightarrow>
      let grp = takeWhile (\<lambda>c. c \<noteq> CHR ''<'') r3 in
      if grp = [] then None
      else case strip_prefix ''</script>'' (dropWhile (\<lambda>c. c \<noteq> CHR ''<'') r3) of
             None \<Rightarrow> None
           | Some r4 \<Rightarrow> Some (grp, r4))\<close>

function re_findall :: "string \<Rightarrow> string list" where
  "re_findall [] = []"
| "re_findall (c # cs) =
     (case match_web_json (c # cs) of
        None \<Rightarrow> re_findall cs
      | Some (grp, rest) \<Rightarrow> grp # re_findall rest)"
  by pat_completeness auto
termination
proof (relation "measure length")
  show "wf (measure (length :: string \<Rightarrow> nat))" by simp
next
  fix c :: char and cs :: string
  show "(cs, c # cs) \<in> measure length" by simp
next
  fix c :: char and cs :: string and x2 :: "string \<times> string" and grp rest :: string
  assume m: "match_web_json (c # cs) = Some x2" and x2: "(grp, rest) = x2"
  have sp: "length r \<le> length s" if "strip_prefix p s = Some r" for p s r
    using that by (induction p s rule: strip_prefix.induct) (auto split: if_splits)
  have dw: "length (dropWhile P s) \<le> length s" for P and s :: string
    by (simp add: length_dropWhile_le)
  from m x2 obtain r1 where r1: "strip_prefix ''<script'' (c # cs) = Some r1"
    by (auto simp: match_web_json_def split: option.splits)
  then obtain t where t: "c # cs = CHR ''<'' # t" and r1': "strip_prefix ''script'' t = Some r1"
    by (auto split: if_splits)
  from r1' have l1: "length r1 \<le> length cs" using sp t by auto
  from m x2 r1 obtain r2 r3 where
    r2: \<open>strip_prefix ''id="__NEXT_DATA__"'' (dropWhile re_space r1) = Some r2\<close> and
    r3: \<open>strip_prefix ''type="application/json">'' (dropWhile re_space r2) = Some r3\<close> and
    r4: \<open>strip_prefix ''</script>'' (dropWhile (\<lambda>c. c \<noteq> CHR ''<'') r3) = Some rest\<close>
    by (auto simp: match_web_json_def Let_def split: option.splits if_splits)
  have "length rest \<le> length (dropWhile (\<lambda>c. c \<noteq> CHR ''<'') r3)" using sp [OF r4] .
  also have "\<dots> \<le> length r3" by (rule dw)
  also have "\<dots> \<le> length (dropWhile re_space r2)" using sp [OF r3] .
  also have "\<dots> \<le> length r2" by (rule dw)
  also have "\<dots> \<le> length (dropWhile re_space r1)" using sp [OF r2] .
  also have "\<dots> \<le> length r1" by (rule dw)
  also have "\<dots> \<le> length cs" by (rule l1)
  finally show "(rest, c # cs) \<in> measure length" by simp
qed

declare re_findall.simps [simp del]

subsection \<open>\<^verbatim>\<open>os.path.join\<close>\<close>

definition join2 :: "string \<Rightarrow> string \<Rightarrow> string" where
  \<comment> \<open>one step of \<^verbatim>\<open>posixpath.join\<close>\<close>
  "join2 path b =
     (if b \<noteq> [] \<and> hd b = CHR ''/'' then b
      else if path = [] \<or> last path = CHR ''/'' then path @ b
      else path @ ''/'' @ b)"

definition os_path_join :: "string \<Rightarrow> string list \<Rightarrow> string" where
  "os_path_join a p = foldl join2 a p"

section \<open>Declarations of \<^verbatim>\<open>snapchat_dlp/utils.py\<close>\<close>

subsection \<open>\<^verbatim>\<open>strf_time\<close>\<close>

text \<open>
  Modelled from the spec: \<^verbatim>\<open>strf_time(timestamp, format_str)\<close> is defined in
  \<^verbatim>\<open>snapchat_dlp/utils.py\<close>, which is not among the sources.  The specification derives the
  date and the formatted timestamp from \<^verbatim>\<open>timestampSeconds\<close> (seconds since the epoch) alone, with
  no use of the current time, so the helper is taken to format the UTC calendar time of the
  timestamp with \<^verbatim>\<open>strftime\<close>, as \<^verbatim>\<open>datetime.utcfromtimestamp(timestamp).strftime(format_str)\<close>
  does on Linux: years 1 to 9999, the year printed without padding, the other fields with two
  digits.  Only the directives the program uses are expanded.
\<close>

definition civil_from_days :: "int \<Rightarrow> int \<times> int \<times> int" where
  \<comment> \<open>year, month and day of the proleptic Gregorian calendar, from the days since 1970-01-01;
      the count runs over 400-year eras, centuries, 4-year cycles and years that begin in March\<close>
  "civil_from_days z =
     (let z0 = z + 719468;
          era = z0 div 146097;
          doe = z0 mod 146097;
          c = min 3 (doe div 36524);
          d1 = doe - 36524 * c;
          q = d1 div 1461;
          d2 = d1 mod 1461;
          a = min 3 (d2 div 365);
          doy = d2 - 365 * a;
          y = 400 * era + 100 * c + 4 * q + a;
          mp = (5 * doy + 2) div 153;
          d = doy - (153 * mp + 2) div 5 + 1;
          m = (if mp < 10 then mp + 3 else mp - 9)
      in (if m \<le> 2 then y + 1 else y, m, d))"

record tm =
  tm_year :: nat
  tm_mon :: nat
  tm_mday :: nat
  tm_hour :: nat
  tm_min :: nat
  tm_sec :: nat

definition utcfromtimestamp :: "int \<Rightarrow> exn + tm" where
  "utcfromtimestamp ts =
     (if ts < - (2 ^ 63) \<or> 2 ^ 63 \<le> ts then Inl OverflowError
      else if ts < - 67768040609740800 \<or> 67768036191676799 < ts then Inl OSError
      else
        (case civil_from_days (ts div 86400) of (y, m, d) \<Rightarrow>
           if y < 1 \<or> 9999 < y then Inl ValueError
           else
             let s = ts mod 86400
             in Inr \<lparr>tm_year = nat y, tm_mon = nat m, tm_mday = nat d,
                     tm_hour = nat (s div 3600), tm_min = nat (s mod 3600 div 60),
                     tm_sec = nat (s mod 60)\<rparr>))"

definition pad2 :: "nat \<Rightarrow> string" where
  "pad2 n = (if n < 10 then CHR ''0'' # show_nat n else show_nat n)"

fun strftime :: "tm \<Rightarrow> string \<Rightarrow> string" where
  "strftime t [] = []"
| "strftime t [c] = [c]"
| "strftime t (c # d # cs) =
     (if c = CHR ''%'' then
        (if d = CHR ''Y'' then show_nat (tm_year t) @ strftime t cs
         else if d = CHR ''m'' then pad2 (tm_mon t) @ strftime t cs
         else if d = CHR ''d'' then pad2 (tm_mday t) @ strftime t cs
         else if d = CHR ''H'' then pad2 (tm_hour t) @ strftime t cs
         else if d = CHR ''M'' then pad2 (tm_min t) @ strftime t cs
         else if d = CHR ''S'' then pad2 (tm_sec t) @ strftime t cs
         else if d = CHR ''%'' then CHR ''%'' # strftime t cs
         else c # d # strftime t cs)
      else c # strftime t (d # cs))"

definition strf_time :: "int \<Rightarrow> string \<Rightarrow> exn + string" where
  "strf_time timestamp format_str =
     and_then (utcfromtimestamp timestamp) (\<lambda>t. Inr (strftime t format_str))"

subsection \<open>\<^verbatim>\<open>MEDIA_TYPE\<close>\<close>

text \<open>
  \<^verbatim>\<open>MEDIA_TYPE\<close> is declared in \<^verbatim>\<open>snapchat_dlp/utils.py\<close>, which is not among the sources; the
  program only subscripts it, \<^verbatim>\<open>MEDIA_TYPE[media_type]\<close>.  It is a parameter here: a Python list
  of extensions, subscripted by position, or a dictionary from media kinds to extensions.
\<close>

datatype py_table = TList "string list" | TDict "(json \<times> string) list"

fun num_val :: "json \<Rightarrow> real option" where
  "num_val (JInt i) = Some (real_of_int i)"
| "num_val (JBool b) = Some (if b then 1 else 0)"
| "num_val (JFloat (Finite r)) = Some r"
| "num_val v = None"

definition key_eq :: "json \<Rightarrow> json \<Rightarrow> bool" where
  \<comment> \<open>equality of dictionary keys: numbers by value, \<^verbatim>\<open>nan\<close> equal to nothing\<close>
  "key_eq a b =
     (case (num_val a, num_val b) of
        (Some x, Some y) \<Rightarrow> x = y
      | _ \<Rightarrow> a = b \<and> a \<noteq> JFloat NaN)"

fun table_getitem :: "py_table \<Rightarrow> json \<Rightarrow> exn + string" where
  "table_getitem (TList xs) k =
     (case as_index k of None \<Rightarrow> Inl TypeError | Some i \<Rightarrow> list_getitem xs i)"
| "table_getitem (TDict kvs) (JList ks) = Inl TypeError"
| "table_getitem (TDict kvs) (JObj ks) = Inl TypeError"
| "table_getitem (TDict kvs) k =
     (case find (\<lambda>kv. key_eq (fst kv) k) kvs of
        None \<Rightarrow> Inl KeyError
      | Some kv \<Rightarrow> Inr (snd kv))"

section \<open>The program state\<close>

text \<open>
  What a call of \<^verbatim>\<open>download\<close> leaves behind: the lines it logged, the directories it asked
  \<^verbatim>\<open>os.makedirs\<close> for, the sidecar files it passed to \<^verbatim>\<open>dump_response\<close> and the tasks it
  submitted to the executor, each in the order of the calls.  A log line is kept as its level
  and the message it was built from, with the values that were formatted into it.
\<close>

datatype level = ERROR | INFO

datatype message =
    UserNotFound404 string
      \<comment> \<open>\<^verbatim>\<open>User '{username}' not found (404).\<close>\<close>
  | FetchFailed string int
      \<comment> \<open>\<^verbatim>\<open>Failed to fetch data for '{username}'. Status code: {response.status_code}.\<close>\<close>
  | ParseError string exn
      \<comment> \<open>\<^verbatim>\<open>Error parsing response for '{username}': {e}\<close>\<close>
  | CouldNotFetch string
      \<comment> \<open>\<^verbatim>\<open>Could not fetch data for '{username}'. The user may not exist or has no public stories.\<close>\<close>
  | HasNoStories string
      \<comment> \<open>\<^verbatim>\<open>{username} has no stories.\<close>\<close>
  | HasStories string nat
      \<comment> \<open>\<^verbatim>\<open>[+] {username} has {len(stories)} stories.\<close>\<close>
  | StoriesDownloaded string nat
      \<comment> \<open>\<^verbatim>\<open>{len(stories)} stories downloaded for {username}.\<close>\<close>

record world =
  log :: "(level \<times> message) list"
  made_dirs :: "string list"
  dumped :: "(json \<times> string) list"
  submitted :: "(json \<times> string \<times> int) list"

definition logger_error :: "world \<Rightarrow> message \<Rightarrow> world" where
  "logger_error w m = w\<lparr>log := log w @ [(ERROR, m)]\<rparr>"

definition logger_info :: "world \<Rightarrow> message \<Rightarrow> world" where
  "logger_info w m = w\<lparr>log := log w @ [(INFO, m)]\<rparr>"

definition os_makedirs :: "world \<Rightarrow> string \<Rightarrow> world" where
  \<comment> \<open>\<^verbatim>\<open>os.makedirs(dir_name, exist_ok=True)\<close>\<close>
  "os_makedirs w dir_name = w\<lparr>made_dirs := made_dirs w @ [dir_name]\<rparr>"

definition executor_submit :: "world \<Rightarrow> json \<times> string \<times> int \<Rightarrow> world" where
  \<comment> \<open>\<^verbatim>\<open>executor.submit(download_url, media_url, media_output, self.sleep_interval)\<close>\<close>
  "executor_submit w task = w\<lparr>submitted := submitted w @ [task]\<rparr>"

text \<open>
  Modelled from the spec: \<^verbatim>\<open>dump_response(content, path)\<close> is defined in
  \<^verbatim>\<open>snapchat_dlp/utils.py\<close>, which is not among the sources.  The specification has it persist
  the item's metadata as a sidecar file beside the media output, so it is taken to write the
  content it is given under the path, and to change nothing else.
\<close>

definition dump_response :: "world \<Rightarrow> json \<Rightarrow> string \<Rightarrow> world" where
  "dump_response w content path = w\<lparr>dumped := dumped w @ [(content, path)]\<rparr>"

section \<open>\<^verbatim>\<open>class SnapchatDL\<close>\<close>

text \<open>
  The fields that \<^verbatim>\<open>__init__\<close> sets from its arguments.  \<open>directory_prefix\<close> is the value of
  \<^verbatim>\<open>os.path.abspath(os.path.normpath(directory_prefix))\<close>.
\<close>

record SnapchatDL =
  directory_prefix :: string
  max_workers :: int
  limit_story :: int
  sleep_interval :: int
  quiet :: bool
  dump_json :: bool

text \<open>
  What the module takes from outside: the table \<^verbatim>\<open>MEDIA_TYPE\<close>, the decoder \<^verbatim>\<open>json.loads\<close>
  (\<open>None\<close> where it raises \<^verbatim>\<open>JSONDecodeError\<close>) and \<^verbatim>\<open>repr\<close> on floats, lists and
  dictionaries.
\<close>

record externals =
  MEDIA_TYPE :: py_table
  json_loads :: "string \<Rightarrow> json option"
  repr_other :: "json \<Rightarrow> string"

record response =
  status_code :: int
  "text" :: string

subsection \<open>\<^verbatim>\<open>_web_fetch_story\<close>\<close>

definition util_web_user_info :: "json \<Rightarrow> exn + json" where
  "util_web_user_info content =
     and_then (py_getitem content (JStr ''props'')) (\<lambda>props.
     and_then (py_getitem props (JStr ''pageProps'')) (\<lambda>pageProps.
     and_then (py_contains ''userProfile'' pageProps) (\<lambda>has_profile.
       if has_profile then
         and_then (py_getitem pageProps (JStr ''userProfile'')) (\<lambda>user_profile.
         and_then (py_getitem user_profile (JStr ''$case'')) (\<lambda>field_id.
         py_getitem user_profile field_id))
       else Inl UserNotFoundError)))"

definition util_web_story :: "json \<Rightarrow> exn + json" where
  "util_web_story content =
     and_then (py_getitem content (JStr ''props'')) (\<lambda>props.
     and_then (py_getitem props (JStr ''pageProps'')) (\<lambda>pageProps.
     and_then (py_contains ''story'' pageProps) (\<lambda>has_story.
       if has_story then
         and_then (py_getitem pageProps (JStr ''story'')) (\<lambda>story.
         py_getitem story (JStr ''snapList''))
       else Inr (JList []))))"

definition parse_response :: "externals \<Rightarrow> string \<Rightarrow> exn + json \<times> json" where
  \<comment> \<open>the body of the \<^verbatim>\<open>try\<close> statement, lines 78 to 95\<close>
  "parse_response ext body =
     (case re_findall body of
        [] \<Rightarrow> Inl IndexError
      | raw # others \<Rightarrow>
          (case json_loads ext raw of
             None \<Rightarrow> Inl ValueError
           | Some response_json \<Rightarrow>
               and_then (util_web_user_info response_json) (\<lambda>user_info.
               and_then (util_web_story response_json) (\<lambda>stories.
               Inr (stories, user_info)))))"

definition web_fetch_story ::
  "externals \<Rightarrow> world \<Rightarrow> string \<Rightarrow> response \<Rightarrow> (exn + json \<times> json) \<times> world" where
  \<comment> \<open>\<open>resp\<close> is what \<^verbatim>\<open>self._api_response(username)\<close> returned\<close>
  "web_fetch_story ext w username resp =
     (if status_code resp \<noteq> 200 then
        (Inl APIResponseError,
         logger_error w
           (if status_code resp = 404 then UserNotFound404 username
            else FetchFailed username (status_code resp)))
      else
        (case parse_response ext (text resp) of
           Inr r \<Rightarrow> (Inr r, w)
         | Inl e \<Rightarrow>
             if e = IndexError \<or> e = KeyError \<or> e = ValueError then
               (Inl APIResponseError, logger_error w (ParseError username e))
             else (Inl e, w)))"

subsection \<open>\<^verbatim>\<open>_download_media\<close>\<close>

definition media_fields :: "json \<Rightarrow> exn + json \<times> json \<times> json \<times> int" where
  \<comment> \<open>lines 101 to 104\<close>
  "media_fields media =
     and_then (py_getitem media (JStr ''snapId'')) (\<lambda>sid.
     and_then (py_getitem sid (JStr ''value'')) (\<lambda>snap_id.
     and_then (py_getitem media (JStr ''snapUrls'')) (\<lambda>urls.
     and_then (py_getitem urls (JStr ''mediaUrl'')) (\<lambda>media_url.
     and_then (py_getitem media (JStr ''snapMediaType'')) (\<lambda>media_type.
     and_then (py_getitem media (JStr ''timestampInSec'')) (\<lambda>ts.
     and_then (py_getitem ts (JStr ''value'')) (\<lambda>tsv.
     and_then (py_int tsv) (\<lambda>timestamp.
     Inr (snap_id, media_url, media_type, timestamp)))))))))"

definition name_media ::
  "SnapchatDL \<Rightarrow> externals \<Rightarrow> world \<Rightarrow> json \<Rightarrow> string \<Rightarrow>
     (exn + json \<times> string \<times> string) \<times> world" where
  \<comment> \<open>lines 101 to 112: the media URL, \<open>dir_name\<close> and \<open>filename\<close>\<close>
  "name_media self ext w media username =
     (case media_fields media of
        Inl e \<Rightarrow> (Inl e, w)
      | Inr (snap_id, media_url, media_type, timestamp) \<Rightarrow>
     (case strf_time timestamp ''%Y-%m-%d'' of
        Inl e \<Rightarrow> (Inl e, w)
      | Inr date_str \<Rightarrow>
          let dir_name = os_path_join (directory_prefix self) [username, date_str];
              w1 = os_makedirs w dir_name
          in
     (case strf_time timestamp ''%Y-%m-%d_%H-%M-%S {} {}.{}'' of
        Inl e \<Rightarrow> (Inl e, w1)
      | Inr template \<Rightarrow>
     (case table_getitem (MEDIA_TYPE ext) media_type of
        Inl e \<Rightarrow> (Inl e, w1)
      | Inr extension \<Rightarrow>
     (case str_format template [py_format (repr_other ext) snap_id, username, extension] of
        Inl e \<Rightarrow> (Inl e, w1)
      | Inr filename \<Rightarrow> (Inr (media_url, dir_name, filename), w1))))))"

fun dict_setitem :: "(string \<times> json) list \<Rightarrow> string \<Rightarrow> json \<Rightarrow> (string \<times> json) list" where
  \<comment> \<open>\<^verbatim>\<open>d[k] = v\<close> on the items of \<open>d\<close>\<close>
  "dict_setitem [] k v = [(k, v)]"
| "dict_setitem (kv # kvs) k v =
     (if fst kv = k then (k, v) # kvs else kv # dict_setitem kvs k v)"

fun dict_items :: "json \<Rightarrow> (string \<times> json) list" where
  \<comment> \<open>the items of \<^verbatim>\<open>dict(media)\<close>; \<open>media\<close> is a dictionary wherever line 116 is reached,
      since line 101 subscripted it with a string\<close>
  "dict_items (JObj kvs) = kvs"
| "dict_items v = []"

definition download_media ::
  "SnapchatDL \<Rightarrow> externals \<Rightarrow> world \<Rightarrow> json \<Rightarrow> string \<Rightarrow> json \<Rightarrow>
     (exn + json \<times> string) \<times> world" where
  "download_media self ext w media username snap_user =
     (case name_media self ext w media username of
        (Inl e, w1) \<Rightarrow> (Inl e, w1)
      | (Inr (media_url, dir_name, filename), w1) \<Rightarrow>
          let w2 =
                (if dump_json self then
                   let filename_json = os_path_join dir_name [filename @ ''.json''];
                       media_json = dict_setitem (dict_items media) ''snapUser'' snap_user
                   in dump_response w1 (JObj media_json) filename_json
                 else w1);
              media_output = os_path_join dir_name [filename]
          in (Inr (media_url, media_output), w2))"

subsection \<open>\<^verbatim>\<open>download\<close>\<close>

text \<open>
  The model follows a call during which no \<^verbatim>\<open>KeyboardInterrupt\<close> is delivered, from the
  moment the response has arrived.
\<close>

datatype outcome = Returned | Raised exn

fun submit_all ::
  "SnapchatDL \<Rightarrow> externals \<Rightarrow> string \<Rightarrow> json \<Rightarrow> json list \<Rightarrow> world \<Rightarrow> outcome \<times> world" where
  \<comment> \<open>the loop of lines 144 to 146\<close>
  "submit_all self ext username snap_user [] w = (Returned, w)"
| "submit_all self ext username snap_user (media # rest) w =
     (case download_media self ext w media username snap_user of
        (Inl e, w1) \<Rightarrow> (Raised e, w1)
      | (Inr (media_url, media_output), w1) \<Rightarrow>
          submit_all self ext username snap_user rest
            (executor_submit w1 (media_url, media_output, sleep_interval self)))"

definition download ::
  "SnapchatDL \<Rightarrow> externals \<Rightarrow> world \<Rightarrow> string \<Rightarrow> response \<Rightarrow> outcome \<times> world" where
  "download self ext w username resp =
     (case web_fetch_story ext w username resp of
        (Inl e, w1) \<Rightarrow>
          if e = APIResponseError then (Returned, logger_error w1 (CouldNotFetch username))
          else (Raised e, w1)
      | (Inr (stories, snap_user), w1) \<Rightarrow>
          if \<not> py_truthy stories then
            (Returned, if \<not> quiet self then logger_info w1 (HasNoStories username) else w1)
          else
            (case py_len stories of
               Inl e \<Rightarrow> (Raised e, w1)
             | Inr n \<Rightarrow>
                 let w2 = logger_info w1 (HasStories username n)
                 in if max_workers self \<le> 0 then (Raised ValueError, w2)
                    else
                      (case py_iter stories of
                         Inl e \<Rightarrow> (Raised e, w2)
                       | Inr items \<Rightarrow>
                           (case submit_all self ext username snap_user items w2 of
                              (Raised e, w3) \<Rightarrow> (Raised e, w3)
                            | (Returned, w3) \<Rightarrow>
                                (Returned, logger_info w3 (StoriesDownloaded username n))))))"

subsection \<open>\<^verbatim>\<open>_download_media\<close> on a store of dictionaries\<close>

text \<open>
  Lines 116 and 117 copy the item and assign to the copy.  To tell the copy from the item, this
  second model keeps the dictionaries in a store, addressed by position, and \<open>media\<close> is the
  address of the item: \<^verbatim>\<open>dict(media)\<close> allocates a new dictionary with the items of the one at
  \<open>media\<close>, and the assignment changes the dictionary at the address it is given.  No line of the
  method changes a value inside a dictionary, so the values stay the trees they are.
\<close>

type_synonym store = "(string \<times> json) list list"

definition store_dict :: "store \<Rightarrow> nat \<Rightarrow> store \<times> nat" where
  \<comment> \<open>\<^verbatim>\<open>dict(d)\<close>: the store with the new dictionary, and its address\<close>
  "store_dict h d = (h @ [h ! d], length h)"

definition store_setitem :: "store \<Rightarrow> nat \<Rightarrow> string \<Rightarrow> json \<Rightarrow> store" where
  \<comment> \<open>\<^verbatim>\<open>d[k] = v\<close>\<close>
  "store_setitem h d k v = h[d := dict_setitem (h ! d) k v]"

definition download_media_at ::
  "SnapchatDL \<Rightarrow> externals \<Rightarrow> world \<Rightarrow> store \<Rightarrow> nat \<Rightarrow> string \<Rightarrow> json \<Rightarrow>
     (exn + json \<times> string) \<times> world \<times> store" where
  "download_media_at self ext w h media username snap_user =
     (case name_media self ext w (JObj (h ! media)) username of
        (Inl e, w1) \<Rightarrow> (Inl e, w1, h)
      | (Inr (media_url, dir_name, filename), w1) \<Rightarrow>
          let (w2, h2) =
                (if dump_json self then
                   let filename_json = os_path_join dir_name [filename @ ''.json''];
                       (h1, media_json) = store_dict h media;
                       h2 = store_setitem h1 media_json ''snapUser'' snap_user
                   in (dump_response w1 (JObj (h2 ! media_json)) filename_json, h2)
                 else (w1, h));
              media_output = os_path_join dir_name [filename]
          in (Inr (media_url, media_output), w2, h2))"

section \<open>The output path in the words of the specification\<close>


section \<open>Example inputs\<close>

text \<open>
  A configuration, a table, a decoder that knows four documents by name, and pages that embed
  them, for the evaluations below.
\<close>

definition world0 :: world where
  "world0 = \<lparr>log = [], made_dirs = [], dumped = [], submitted = []\<rparr>"

definition demo_self :: SnapchatDL where
  "demo_self = \<lparr>directory_prefix = ''/out'', max_workers = 2, limit_story = 1,
     sleep_interval = 1, quiet = False, dump_json = False\<rparr>"

definition demo_item :: "string \<Rightarrow> json \<Rightarrow> string \<Rightarrow> json" where
  "demo_item snap_id media_type timestamp =
     JObj [(''snapId'', JObj [(''value'', JStr snap_id)]),
           (''snapUrls'', JObj [(''mediaUrl'', JStr (''https://cdn.example/'' @ snap_id))]),
           (''snapMediaType'', media_type),
           (''timestampInSec'', JObj [(''value'', JStr timestamp)])]"

definition demo_profile :: json where
  "demo_profile =
     JObj [(''$case'', JStr ''publicProfileInfo''),
           (''publicProfileInfo'', JObj [(''username'', JStr ''alice'')])]"

definition demo_page :: "(string \<times> json) list \<Rightarrow> json" where
  "demo_page pageProps = JObj [(''props'', JObj [(''pageProps'', JObj pageProps)])]"

definition demo_loads :: "string \<Rightarrow> json option" where
  "demo_loads s =
     (if s = ''no-profile'' then Some (demo_page [])
      else if s = ''no-story'' then Some (demo_page [(''userProfile'', demo_profile)])
      else if s = ''empty-list'' then
        Some (demo_page [(''userProfile'', demo_profile),
                         (''story'', JObj [(''snapList'', JList [])])])
      else if s = ''two-snaps'' then
        Some (demo_page
          [(''userProfile'', demo_profile),
           (''story'', JObj [(''snapList'',
              JList [demo_item ''abc'' (JInt 0) ''1700000000'',
                     demo_item ''def'' (JInt 1) ''1700000000''])])])
      else None)"

definition demo_ext :: externals where
  "demo_ext = \<lparr>MEDIA_TYPE = TList [''jpg'', ''mp4''], json_loads = demo_loads,
     repr_other = (\<lambda>v. ''?'')\<rparr>"

definition demo_html :: "string \<Rightarrow> string" where
  \<open>demo_html payload =
     ''<script id="__NEXT_DATA__" type="application/json">'' @ payload @ ''</script>''\<close>

section \<open>Basic facts\<close>

lemma and_then_simps [simp]:
  "and_then (Inl e) f = Inl e"
  "and_then (Inr v) f = f v"
  by (simp_all add: and_then_def)

lemma demo_findall:
  "re_findall (demo_html ''no-profile'') = [''no-profile'']"
  "re_findall (demo_html ''no-story'') = [''no-story'']"
  "re_findall (demo_html ''empty-list'') = [''empty-list'']"
  "re_findall (demo_html ''two-snaps'') = [''two-snaps'']"
  "re_findall (demo_html ''not json'') = [''not json'']"
  "re_findall ''<html></html>'' = []"
  by (simp_all add: re_findall.simps demo_html_def match_web_json_def re_space_def)

lemma demo_ext_simps [simp]:
  "json_loads demo_ext = demo_loads"
  "MEDIA_TYPE demo_ext = TList [''jpg'', ''mp4'']"
  "repr_other demo_ext v = ''?''"
  by (simp_all add: demo_ext_def)

lemma demo_self_simps [simp]:
  "directory_prefix demo_self = ''/out''"
  "max_workers demo_self = 2"
  "limit_story demo_self = 1"
  "sleep_interval demo_self = 1"
  "quiet demo_self = False"
  "dump_json demo_self = False"
  by (simp_all add: demo_self_def)

section \<open>Fetching and extraction\<close>

text \<open>
  C7.  When the fetch returns status 404, \<^verbatim>\<open>_web_fetch_story\<close> logs that the user was not found
  and raises \<^verbatim>\<open>APIResponseError\<close>; \<^verbatim>\<open>download\<close> catches it, logs and returns.  No task is
  submitted, and neither the body of the response nor the decoder has any part in the result:
  it is the same for every body and every decoder.
\<close>

theorem download_status_404:
  assumes "status_code resp = 404"
  shows "web_fetch_story ext w username resp =
           (Inl APIResponseError, logger_error w (UserNotFound404 username))
       \<and> download self ext w username resp =
           (Returned,
            logger_error (logger_error w (UserNotFound404 username)) (CouldNotFetch username))
       \<and> submitted (snd (download self ext w username resp)) = submitted w
       \<and> download self ext w username resp =
           download self ext' w username (resp\<lparr>text := body'\<rparr>)"
  using assms by (simp add: download_def web_fetch_story_def logger_error_def)

theorem download_status_404_witness:
  "status_code \<lparr>status_code = 404, text = ''Not Found''\<rparr> = 404
   \<and> download demo_self demo_ext world0 ''alice'' \<lparr>status_code = 404, text = ''Not Found''\<rparr> =
       (Returned,
        world0\<lparr>log := [(ERROR, UserNotFound404 ''alice''), (ERROR, CouldNotFetch ''alice'')]\<rparr>)
   \<and> submitted (snd (download demo_self demo_ext world0 ''alice''
         \<lparr>status_code = 404, text = ''Not Found''\<rparr>)) = []"
  using download_status_404 [of "\<lparr>status_code = 404, text = ''Not Found''\<rparr>" demo_ext world0
      "''alice''" demo_self demo_ext "''Not Found''"]
  by (simp add: logger_error_def world0_def)

text \<open>
  C6.  When the pattern matches nowhere in the body, or the first matched block does not decode,
  \<^verbatim>\<open>download\<close> returns normally, its last log line says that the data could not be fetched, and
  no task is submitted.  On a response with status 200, the one whose body is examined,
  \<^verbatim>\<open>_web_fetch_story\<close> logs the parse error and raises \<^verbatim>\<open>APIResponseError\<close>, the program's
  only error for a response it cannot interpret.
\<close>

theorem malformed_response_aborts:
  assumes "case re_findall (text resp) of [] \<Rightarrow> True | raw # others \<Rightarrow> json_loads ext raw = None"
  shows "fst (download self ext w username resp) = Returned
       \<and> submitted (snd (download self ext w username resp)) = submitted w
       \<and> last (log (snd (download self ext w username resp))) = (ERROR, CouldNotFetch username)
       \<and> (status_code resp = 200 \<longrightarrow>
            (\<exists>e. (e = IndexError \<or> e = ValueError)
              \<and> web_fetch_story ext w username resp =
                  (Inl APIResponseError, logger_error w (ParseError username e))
              \<and> snd (download self ext w username resp) =
                  logger_error (logger_error w (ParseError username e)) (CouldNotFetch username)))"
proof (cases "status_code resp = 200")
  case False
  then show ?thesis
    by (simp add: download_def web_fetch_story_def logger_error_def)
next
  case True
  from assms have "parse_response ext (text resp) = Inl IndexError
      \<or> parse_response ext (text resp) = Inl ValueError"
    by (auto simp: parse_response_def split: list.splits)
  with True show ?thesis
    by (auto simp: download_def web_fetch_story_def logger_error_def)
qed

theorem malformed_response_aborts_witness:
  "(case re_findall (text \<lparr>status_code = 200, text = ''<html></html>''\<rparr>) of
      [] \<Rightarrow> True | raw # others \<Rightarrow> json_loads demo_ext raw = None)
   \<and> download demo_self demo_ext world0 ''alice'' \<lparr>status_code = 200, text = ''<html></html>''\<rparr> =
       (Returned,
        world0\<lparr>log := [(ERROR, ParseError ''alice'' IndexError), (ERROR, CouldNotFetch ''alice'')]\<rparr>)
   \<and> (case re_findall (text \<lparr>status_code = 200, text = demo_html ''not json''\<rparr>) of
      [] \<Rightarrow> True | raw # others \<Rightarrow> json_loads demo_ext raw = None)
   \<and> download demo_self demo_ext world0 ''alice''
         \<lparr>status_code = 200, text = demo_html ''not json''\<rparr> =
       (Returned,
        world0\<lparr>log := [(ERROR, ParseError ''alice'' ValueError), (ERROR, CouldNotFetch ''alice'')]\<rparr>)"
proof -
  let ?r = "\<lparr>status_code = 200, text = ''<html></html>''\<rparr>"
  let ?s = "\<lparr>status_code = 200, text = demo_html ''not json''\<rparr>"
  have h: "case re_findall (text ?r) of [] \<Rightarrow> True | raw # others \<Rightarrow> json_loads demo_ext raw = None"
    by (simp add: demo_findall)
  have k: "case re_findall (text ?s) of [] \<Rightarrow> True | raw # others \<Rightarrow> json_loads demo_ext raw = None"
    by (simp add: demo_findall demo_loads_def)
  have p: "parse_response demo_ext ''<html></html>'' = Inl IndexError"
    by (simp add: parse_response_def demo_findall)
  have q: "parse_response demo_ext (demo_html ''not json'') = Inl ValueError"
    by (simp add: parse_response_def demo_findall demo_loads_def)
  from malformed_response_aborts [OF h, of demo_self world0 "''alice''"] p
  have a: "download demo_self demo_ext world0 ''alice'' ?r =
       (Returned,
        world0\<lparr>log := [(ERROR, ParseError ''alice'' IndexError), (ERROR, CouldNotFetch ''alice'')]\<rparr>)"
    by (simp add: download_def web_fetch_story_def logger_error_def world0_def)
  from malformed_response_aborts [OF k, of demo_self world0 "''alice''"] q
  have b: "download demo_self demo_ext world0 ''alice'' ?s =
       (Returned,
        world0\<lparr>log := [(ERROR, ParseError ''alice'' ValueError), (ERROR, CouldNotFetch ''alice'')]\<rparr>)"
    by (simp add: download_def web_fetch_story_def logger_error_def world0_def)
  from h k a b show ?thesis by (intro conjI)
qed

text \<open>
  C8.  On a response with status 200 whose decoded page has a \<^verbatim>\<open>userProfile\<close> with its
  \<^verbatim>\<open>$case\<close> variant, and either no \<^verbatim>\<open>story\<close> field or a story whose \<^verbatim>\<open>snapList\<close> is the empty
  list, \<^verbatim>\<open>_web_fetch_story\<close> returns the empty list of stories with the user information and
  raises nothing; \<^verbatim>\<open>download\<close> returns normally, logs at most the line that the user has no
  stories, and submits no task.
\<close>

theorem no_stories_is_success:
  assumes "status_code resp = 200"
    and "re_findall (text resp) = raw # others"
    and "json_loads ext raw = Some (JObj doc)"
    and "map_of doc ''props'' = Some (JObj props)"
    and "map_of props ''pageProps'' = Some (JObj pageProps)"
    and "map_of pageProps ''userProfile'' = Some user_profile"
    and "py_getitem user_profile (JStr ''$case'') = Inr field_id"
    and "py_getitem user_profile field_id = Inr user_info"
    and "map_of pageProps ''story'' = None
         \<or> (\<exists>story. map_of pageProps ''story'' = Some (JObj story)
               \<and> map_of story ''snapList'' = Some (JList []))"
  shows "web_fetch_story ext w username resp = (Inr (JList [], user_info), w)
       \<and> download self ext w username resp =
           (Returned, if quiet self then w else logger_info w (HasNoStories username))
       \<and> submitted (snd (download self ext w username resp)) = submitted w"
proof -
  have mem: "(k \<in> fst ` set kvs) = (map_of kvs k \<noteq> None)" for k :: string and kvs :: "(string \<times> json) list"
    by (simp add: map_of_eq_None_iff)
  from assms(4-8) have info: "util_web_user_info (JObj doc) = Inr user_info"
    by (simp add: util_web_user_info_def mem)
  from assms(4,5,9) have story: "util_web_story (JObj doc) = Inr (JList [])"
    by (auto simp: util_web_story_def mem)
  from assms(2,3) info story have "parse_response ext (text resp) = Inr (JList [], user_info)"
    by (simp add: parse_response_def)
  with assms(1) have fetch: "web_fetch_story ext w username resp = (Inr (JList [], user_info), w)"
    by (simp add: web_fetch_story_def)
  then show ?thesis
    by (simp add: download_def logger_info_def)
qed

theorem no_stories_is_success_witness:
  "web_fetch_story demo_ext world0 ''alice'' \<lparr>status_code = 200, text = demo_html ''no-story''\<rparr> =
     (Inr (JList [], JObj [(''username'', JStr ''alice'')]), world0)
   \<and> download demo_self demo_ext world0 ''alice''
        \<lparr>status_code = 200, text = demo_html ''no-story''\<rparr> =
     (Returned, world0\<lparr>log := [(INFO, HasNoStories ''alice'')]\<rparr>)
   \<and> download demo_self demo_ext world0 ''alice''
        \<lparr>status_code = 200, text = demo_html ''empty-list''\<rparr> =
     (Returned, world0\<lparr>log := [(INFO, HasNoStories ''alice'')]\<rparr>)"
proof -
  let ?profile = "[(''$case'', JStr ''publicProfileInfo''),
                   (''publicProfileInfo'', JObj [(''username'', JStr ''alice'')])]"
  have a: "web_fetch_story demo_ext world0 ''alice''
             \<lparr>status_code = 200, text = demo_html ''no-story''\<rparr> =
             (Inr (JList [], JObj [(''username'', JStr ''alice'')]), world0)
           \<and> download demo_self demo_ext world0 ''alice''
               \<lparr>status_code = 200, text = demo_html ''no-story''\<rparr> =
             (Returned, if quiet demo_self then world0
                        else logger_info world0 (HasNoStories ''alice''))
           \<and> submitted (snd (download demo_self demo_ext world0 ''alice''
               \<lparr>status_code = 200, text = demo_html ''no-story''\<rparr>)) = submitted world0"
    by (rule no_stories_is_success
          [where raw = "''no-story''" and others = "[]"
             and doc = "[(''props'', JObj [(''pageProps'', JObj [(''userProfile'', demo_profile)])])]"
             and props = "[(''pageProps'', JObj [(''userProfile'', demo_profile)])]"
             and pageProps = "[(''userProfile'', demo_profile)]"
             and user_profile = demo_profile and field_id = "JStr ''publicProfileInfo''"])
       (simp_all add: demo_findall demo_loads_def demo_page_def demo_profile_def)
  have b: "download demo_self demo_ext world0 ''alice''
               \<lparr>status_code = 200, text = demo_html ''empty-list''\<rparr> =
             (Returned, if quiet demo_self then world0
                        else logger_info world0 (HasNoStories ''alice''))"
    using no_stories_is_success
          [where resp = "\<lparr>status_code = 200, text = demo_html ''empty-list''\<rparr>"
             and ext = demo_ext and self = demo_self and w = world0 and username = "''alice''"
             and raw = "''empty-list''" and others = "[]"
             and doc = "[(''props'', JObj [(''pageProps'',
                           JObj [(''userProfile'', demo_profile),
                                 (''story'', JObj [(''snapList'', JList [])])])])]"
             and props = "[(''pageProps'',
                           JObj [(''userProfile'', demo_profile),
                                 (''story'', JObj [(''snapList'', JList [])])])]"
             and pageProps = "[(''userProfile'', demo_profile),
                               (''story'', JObj [(''snapList'', JList [])])]"
             and user_profile = demo_profile and field_id = "JStr ''publicProfileInfo''"
             and user_info = "JObj [(''username'', JStr ''alice'')]"]
    by (simp add: demo_findall demo_loads_def demo_page_def demo_profile_def)
  from a b show ?thesis
    by (simp add: logger_info_def world0_def)
qed

text \<open>
  A page whose \<^verbatim>\<open>pageProps\<close> is a dictionary without the key \<^verbatim>\<open>userProfile\<close> makes
  \<^verbatim>\<open>util_web_user_info\<close> raise \<^verbatim>\<open>UserNotFoundError\<close>.  The \<^verbatim>\<open>except\<close> clause of line 96 names
  \<^verbatim>\<open>IndexError\<close>, \<^verbatim>\<open>KeyError\<close> and \<^verbatim>\<open>ValueError\<close>, the one of line 131 names
  \<^verbatim>\<open>APIResponseError\<close>: the exception passes both, nothing is logged, and it leaves
  \<^verbatim>\<open>download\<close>.
\<close>

lemma missing_profile_raises:
  assumes "status_code resp = 200"
    and "re_findall (text resp) = raw # others"
    and "json_loads ext raw = Some (JObj doc)"
    and "map_of doc ''props'' = Some (JObj props)"
    and "map_of props ''pageProps'' = Some (JObj pageProps)"
    and "map_of pageProps ''userProfile'' = None"
  shows "download self ext w username resp = (Raised UserNotFoundError, w)"
proof -
  from assms(6) have "''userProfile'' \<notin> fst ` set pageProps"
    by (simp add: map_of_eq_None_iff)
  with assms(4,5) have "util_web_user_info (JObj doc) = Inl UserNotFoundError"
    by (simp add: util_web_user_info_def)
  with assms(2,3) have "parse_response ext (text resp) = Inl UserNotFoundError"
    by (simp add: parse_response_def)
  with assms(1) show ?thesis
    by (simp add: download_def web_fetch_story_def)
qed

text \<open>
  C1.  The response has status 200 and its embedded payload decodes to
  \<^verbatim>\<open>{"props": {"pageProps": {}}}\<close>, a page with no \<^verbatim>\<open>userProfile\<close>.  The call of \<^verbatim>\<open>download\<close>
  does not return: \<^verbatim>\<open>UserNotFoundError\<close> propagates out of it, and no line has been logged.
\<close>

theorem missing_profile_escapes_download:
  "json_loads demo_ext ''no-profile'' = Some (JObj [(''props'', JObj [(''pageProps'', JObj [])])])
   \<and> download demo_self demo_ext world0 ''alice''
        \<lparr>status_code = 200, text = demo_html ''no-profile''\<rparr> =
       (Raised UserNotFoundError, world0)
   \<and> log world0 = []"
  using missing_profile_raises
    [where resp = "\<lparr>status_code = 200, text = demo_html ''no-profile''\<rparr>" and ext = demo_ext
       and raw = "''no-profile''" and others = "[]"
       and doc = "[(''props'', JObj [(''pageProps'', JObj [])])]"
       and props = "[(''pageProps'', JObj [])]" and pageProps = "[]"
       and self = demo_self and w = world0 and username = "''alice''"]
  by (simp add: demo_findall demo_loads_def demo_page_def world0_def)


section \<open>File names\<close>

lemma digit_char_mem: "k < 10 \<Longrightarrow> is_digit (digit_char k)"
  unfolding digit_char_def is_digit_def by (rule nth_mem) simp

lemma show_nat_digits: "c \<in> set (show_nat n) \<Longrightarrow> is_digit c"
proof (induction n rule: show_nat.induct)
  case (1 n)
  show ?case
  proof (cases "n < 10")
    case True
    with "1.prems" have "c = digit_char n"
      by (simp add: show_nat.simps [of n])
    with True show ?thesis
      using digit_char_mem [of n] by blast
  next
    case False
    with "1.prems" have "c \<in> set (show_nat (n div 10)) \<or> c = digit_char (n mod 10)"
      by (auto simp: show_nat.simps [of n])
    then show ?thesis
      using "1.IH" False digit_char_mem [of "n mod 10"] by auto
  qed
qed

lemma pad2_digits: "c \<in> set (pad2 n) \<Longrightarrow> is_digit c"
  using show_nat_digits [of c n] by (auto simp: pad2_def is_digit_def split: if_splits)

lemma strftime_date:
  "strftime t ''%Y-%m-%d'' = show_nat (tm_year t) @ ''-'' @ pad2 (tm_mon t) @ ''-'' @ pad2 (tm_mday t)"
  by simp

lemma strftime_date_time:
  "strftime t ''%Y-%m-%d_%H-%M-%S'' =
     show_nat (tm_year t) @ ''-'' @ pad2 (tm_mon t) @ ''-'' @ pad2 (tm_mday t) @ ''_''
       @ pad2 (tm_hour t) @ ''-'' @ pad2 (tm_min t) @ ''-'' @ pad2 (tm_sec t)"
  by simp

lemma strftime_template:
  "strftime t ''%Y-%m-%d_%H-%M-%S {} {}.{}'' = strftime t ''%Y-%m-%d_%H-%M-%S'' @ '' {} {}.{}''"
  by simp


lemma date_time_chars:
  "c \<in> set (strftime t ''%Y-%m-%d_%H-%M-%S'') \<Longrightarrow> is_digit c \<or> c = CHR ''-'' \<or> c = CHR ''_''"
  unfolding strftime_date_time
  by (auto dest: show_nat_digits pad2_digits)


lemma is_digit_not_brace: "is_digit c \<Longrightarrow> c \<noteq> CHR ''{'' \<and> c \<noteq> CHR ''}''"
  by (auto simp: is_digit_def)

lemma str_format_skip:
  assumes "\<forall>c \<in> set s. c \<noteq> CHR ''{'' \<and> c \<noteq> CHR ''}''"
  shows "str_format (s @ CHR '' '' # rest) args =
           and_then (str_format (CHR '' '' # rest) args) (\<lambda>r. Inr (s @ r))"
  using assms
proof (induction s)
  case Nil
  show ?case by (cases "str_format (CHR '' '' # rest) args") simp_all
next
  case (Cons c s)
  then have IH: "str_format (s @ CHR '' '' # rest) args =
      and_then (str_format (CHR '' '' # rest) args) (\<lambda>r. Inr (s @ r))"
    and c: "c \<noteq> CHR ''{''" "c \<noteq> CHR ''}''"
    by simp_all
  obtain d ds where ds: "s @ CHR '' '' # rest = d # ds"
    by (cases s) auto
  have "str_format (c # d # ds) args = and_then (str_format (d # ds) args) (\<lambda>r. Inr (c # r))"
    using c by simp
  with ds IH show ?case
    by (cases "str_format (CHR '' '' # rest) args") simp_all
qed

lemma str_format_fields:
  "str_format '' {} {}.{}'' [a, b, c] = Inr ('' '' @ a @ '' '' @ b @ ''.'' @ c)"
  by simp

lemma filename_format:
  "str_format (strftime t ''%Y-%m-%d_%H-%M-%S {} {}.{}'') [a, b, c] =
     Inr (strftime t ''%Y-%m-%d_%H-%M-%S'' @ '' '' @ a @ '' '' @ b @ ''.'' @ c)"
proof -
  have "\<forall>x \<in> set (strftime t ''%Y-%m-%d_%H-%M-%S''). x \<noteq> CHR ''{'' \<and> x \<noteq> CHR ''}''"
    using date_time_chars [of _ t] is_digit_not_brace by blast
  from str_format_skip [OF this, of "''{} {}.{}''" "[a, b, c]"] str_format_fields [of a b c]
  show ?thesis
    unfolding strftime_template by simp
qed


declare strftime.simps [simp del] str_format.simps [simp del]

lemma strf_time_ok:
  "utcfromtimestamp timestamp = Inr t \<Longrightarrow> strf_time timestamp fmt = Inr (strftime t fmt)"
  by (simp add: strf_time_def)

lemma strf_time_fails:
  "utcfromtimestamp timestamp = Inl e \<Longrightarrow> strf_time timestamp fmt = Inl e"
  by (simp add: strf_time_def)

lemma name_media_ok:
  assumes "media_fields media = Inr (snap_id, media_url, media_type, timestamp)"
    and "utcfromtimestamp timestamp = Inr t"
    and "table_getitem (MEDIA_TYPE ext) media_type = Inr extension"
  shows "name_media self ext w media username =
           (Inr (media_url,
                 os_path_join (directory_prefix self) [username, strftime t ''%Y-%m-%d''],
                 strftime t ''%Y-%m-%d_%H-%M-%S'' @ '' '' @ py_format (repr_other ext) snap_id
                   @ '' '' @ username @ ''.'' @ extension),
            os_makedirs w
              (os_path_join (directory_prefix self) [username, strftime t ''%Y-%m-%d'']))"
  unfolding name_media_def
  by (simp add: assms(1,3) strf_time_ok [OF assms(2)] filename_format Let_def)


lemma download_media_ok:
  assumes "media_fields media = Inr (snap_id, media_url, media_type, timestamp)"
    and "utcfromtimestamp timestamp = Inr t"
    and "table_getitem (MEDIA_TYPE ext) media_type = Inr extension"
  shows "fst (download_media self ext w media username snap_user) =
           Inr (media_url,
                os_path_join
                  (os_path_join (directory_prefix self) [username, strftime t ''%Y-%m-%d''])
                  [strftime t ''%Y-%m-%d_%H-%M-%S'' @ '' '' @ py_format (repr_other ext) snap_id
                     @ '' '' @ username @ ''.'' @ extension])"
  unfolding download_media_def
  by (simp add: name_media_ok [OF assms] Let_def)


section \<open>The example story items\<close>

lemma demo_int_of_str: "int_of_str ''1700000000'' = Some 1700000000"
  by (simp add: int_of_str_def unsigned_of_str_def digit_val_def int_space_def)

lemma demo_fields:
  "media_fields (demo_item sid mt ''1700000000'') =
     Inr (JStr sid, JStr (''https://cdn.example/'' @ sid), mt, 1700000000)"
  by (simp add: media_fields_def demo_item_def demo_int_of_str)

lemma demo_time:
  "utcfromtimestamp 1700000000 =
     Inr \<lparr>tm_year = 2023, tm_mon = 11, tm_mday = 14, tm_hour = 22, tm_min = 13, tm_sec = 20\<rparr>"
  by code_simp

lemma demo_strftime:
  "strftime \<lparr>tm_year = 2023, tm_mon = 11, tm_mday = 14, tm_hour = 22, tm_min = 13, tm_sec = 20\<rparr>
     ''%Y-%m-%d'' = ''2023-11-14''"
  "strftime \<lparr>tm_year = 2023, tm_mon = 11, tm_mday = 14, tm_hour = 22, tm_min = 13, tm_sec = 20\<rparr>
     ''%Y-%m-%d_%H-%M-%S'' = ''2023-11-14_22-13-20''"
  by (simp_all add: strftime_date strftime_date_time pad2_def show_nat.simps digit_char_def)


lemma demo_download_media:
  assumes "table_getitem (TList [''jpg'', ''mp4'']) mt = Inr extension"
    and "directory_prefix self = ''/out''"
  shows "fst (download_media self demo_ext w (demo_item sid mt ''1700000000'') ''alice'' snap_user) =
     Inr (JStr (''https://cdn.example/'' @ sid),
          ''/out/alice/2023-11-14/2023-11-14_22-13-20 '' @ sid @ '' alice.'' @ extension)"
  using download_media_ok [OF demo_fields [of sid mt] demo_time, where ext = demo_ext
      and extension = extension and self = self and w = w
      and username = "''alice''" and snap_user = snap_user] assms
  by (simp add: demo_strftime os_path_join_def join2_def)

section \<open>The Namer\<close>

lemma name_media_result:
  assumes "directory_prefix self' = directory_prefix self"
  shows "fst (name_media self' ext w' media username) = fst (name_media self ext w media username)"
  using assms
  by (simp add: name_media_def Let_def split: sum.splits prod.splits)















section \<open>The loop over the stories\<close>

lemma download_media_result:
  "fst (download_media self ext w' media username snap_user') =
   fst (download_media self ext w media username snap_user)"
proof -
  have "fst (name_media self ext w' media username) = fst (name_media self ext w media username)"
    by (rule name_media_result) simp
  then show ?thesis
    by (auto simp: download_media_def Let_def split: prod.splits sum.splits)
qed

lemma name_media_keeps:
  "submitted (snd (name_media self ext w media username)) = submitted w"
  "log (snd (name_media self ext w media username)) = log w"
  by (simp_all add: name_media_def os_makedirs_def Let_def split: sum.splits prod.splits)

lemma download_media_keeps:
  "submitted (snd (download_media self ext w media username snap_user)) = submitted w"
  "log (snd (download_media self ext w media username snap_user)) = log w"
  using name_media_keeps [of self ext w media username]
  by (auto simp: download_media_def dump_response_def Let_def split: sum.splits prod.splits)

text \<open>
  When every item can be named, the loop submits one task for each item, in the order of the
  items, and returns.  The setting \<^verbatim>\<open>limit_story\<close> has no part in it.
\<close>

lemma submit_all_submits_each:
  assumes "\<forall>media \<in> set items. \<exists>r. fst (download_media self ext w0 media username snap_user) = Inr r"
  shows "fst (submit_all self ext username snap_user items w) = Returned
       \<and> log (snd (submit_all self ext username snap_user items w)) = log w
       \<and> submitted (snd (submit_all self ext username snap_user items w)) =
           submitted w @
           map (\<lambda>media.
                  case fst (download_media self ext w0 media username snap_user) of
                    Inr (media_url, media_output) \<Rightarrow>
                      (media_url, media_output, sleep_interval self)) items"
  using assms
proof (induction items arbitrary: w)
  case Nil
  show ?case by simp
next
  case (Cons media rest)
  then obtain media_url media_output where
    r0: "fst (download_media self ext w0 media username snap_user) = Inr (media_url, media_output)"
    by fastforce
  obtain w1 where
    r: "download_media self ext w media username snap_user = (Inr (media_url, media_output), w1)"
    using r0 download_media_result [of self ext w media username snap_user w0 snap_user]
    by (cases "download_media self ext w media username snap_user") simp
  have keep: "submitted w1 = submitted w" "log w1 = log w"
    using download_media_keeps [of self ext w media username snap_user] r by simp_all
  from Cons.prems have "\<forall>m \<in> set rest. \<exists>r. fst (download_media self ext w0 m username snap_user) = Inr r"
    by simp
  from Cons.IH [OF this, of "executor_submit w1 (media_url, media_output, sleep_interval self)"]
  show ?case
    by (simp add: r r0 keep executor_submit_def)
qed

lemma limit_story_unused:
  "download (self\<lparr>limit_story := k\<rparr>) ext w username resp = download self ext w username resp"
proof -
  have n: "name_media (self\<lparr>limit_story := k\<rparr>) ext w media username =
      name_media self ext w media username" for w media
    by (simp add: name_media_def Let_def split: sum.splits prod.splits)
  have d: "download_media (self\<lparr>limit_story := k\<rparr>) ext w media username su =
      download_media self ext w media username su" for w media su
    by (simp add: download_media_def n Let_def split: sum.splits prod.splits)
  have s: "submit_all (self\<lparr>limit_story := k\<rparr>) ext username su items w =
      submit_all self ext username su items w" for su items w
    by (induction items arbitrary: w) (simp_all add: d split: prod.splits sum.splits)
  show ?thesis
    by (simp add: download_def s Let_def split: sum.splits prod.splits)
qed

declare submit_all.simps [simp del]

lemma world0_simps [simp]:
  "log world0 = []"
  "made_dirs world0 = []"
  "dumped world0 = []"
  "submitted world0 = []"
  by (simp_all add: world0_def)

lemma demo_two_snaps:
  "web_fetch_story demo_ext w ''alice'' \<lparr>status_code = 200, text = demo_html ''two-snaps''\<rparr> =
     (Inr (JList [demo_item ''abc'' (JInt 0) ''1700000000'',
                  demo_item ''def'' (JInt 1) ''1700000000''],
           JObj [(''username'', JStr ''alice'')]), w)"
  by (simp add: web_fetch_story_def parse_response_def demo_findall demo_loads_def demo_page_def
      demo_profile_def util_web_user_info_def util_web_story_def)

lemma logger_keeps [simp]:
  "submitted (logger_info w m) = submitted w"
  "submitted (logger_error w m) = submitted w"
  by (simp_all add: logger_info_def logger_error_def)

text \<open>
  A list of \<open>n\<close> stories that can all be named gives \<open>n\<close> submitted tasks, whatever the
  value of \<^verbatim>\<open>limit_story\<close>.
\<close>

lemma download_submits_each:
  assumes "web_fetch_story ext w username resp = (Inr (JList items, snap_user), w1)"
    and "items \<noteq> []"
    and "0 < max_workers self"
    and "\<forall>media \<in> set items. \<exists>r. fst (download_media self ext w0 media username snap_user) = Inr r"
  shows "fst (download self ext w username resp) = Returned
       \<and> submitted (snd (download self ext w username resp)) =
           submitted w1 @
           map (\<lambda>media.
                  case fst (download_media self ext w0 media username snap_user) of
                    Inr (media_url, media_output) \<Rightarrow>
                      (media_url, media_output, sleep_interval self)) items"
proof -
  let ?w2 = "logger_info w1 (HasStories username (length items))"
  obtain out w3 where w3: "submit_all self ext username snap_user items ?w2 = (out, w3)"
    by (cases "submit_all self ext username snap_user items ?w2")
  with submit_all_submits_each [OF assms(4), of ?w2]
  have "out = Returned" and "submitted w3 = submitted w1 @
           map (\<lambda>media.
                  case fst (download_media self ext w0 media username snap_user) of
                    Inr (media_url, media_output) \<Rightarrow>
                      (media_url, media_output, sleep_interval self)) items"
    by simp_all
  with w3 assms(1-3) show ?thesis
    by (simp add: download_def Let_def)
qed

text \<open>
  C2.  The object is configured with \<^verbatim>\<open>limit_story = 1\<close> and the page lists two stories.  The
  call of \<^verbatim>\<open>download\<close> submits two tasks: the cap is stored by \<^verbatim>\<open>__init__\<close> and never read.
\<close>

theorem limit_story_not_applied:
  "limit_story demo_self = 1
   \<and> fst (download demo_self demo_ext world0 ''alice''
            \<lparr>status_code = 200, text = demo_html ''two-snaps''\<rparr>) = Returned
   \<and> submitted (snd (download demo_self demo_ext world0 ''alice''
            \<lparr>status_code = 200, text = demo_html ''two-snaps''\<rparr>)) =
       [(JStr ''https://cdn.example/abc'',
         ''/out/alice/2023-11-14/2023-11-14_22-13-20 abc alice.jpg'', 1),
        (JStr ''https://cdn.example/def'',
         ''/out/alice/2023-11-14/2023-11-14_22-13-20 def alice.mp4'', 1)]"
proof -
  let ?items = "[demo_item ''abc'' (JInt 0) ''1700000000'', demo_item ''def'' (JInt 1) ''1700000000'']"
  let ?user = "JObj [(''username'', JStr ''alice'')]"
  have a: "fst (download_media demo_self demo_ext world0 (demo_item ''abc'' (JInt 0) ''1700000000'')
              ''alice'' ?user) =
             Inr (JStr ''https://cdn.example/abc'',
                  ''/out/alice/2023-11-14/2023-11-14_22-13-20 abc alice.jpg'')"
    using demo_download_media [of "JInt 0" "''jpg''" demo_self world0 "''abc''" ?user]
    by (simp add: list_getitem_def)
  have b: "fst (download_media demo_self demo_ext world0 (demo_item ''def'' (JInt 1) ''1700000000'')
              ''alice'' ?user) =
             Inr (JStr ''https://cdn.example/def'',
                  ''/out/alice/2023-11-14/2023-11-14_22-13-20 def alice.mp4'')"
    using demo_download_media [of "JInt 1" "''mp4''" demo_self world0 "''def''" ?user]
    by (simp add: list_getitem_def)
  have all: "\<forall>media \<in> set ?items.
      \<exists>r. fst (download_media demo_self demo_ext world0 media ''alice'' ?user) = Inr r"
    using a b by simp
  from download_submits_each [OF demo_two_snaps [of world0] _ _ all]
  show ?thesis
    by (simp add: a b)
qed

section \<open>The item after naming\<close>

text \<open>
  C10.  \<^verbatim>\<open>_download_media\<close> leaves the dictionary of the item as it was, with sidecar dumping on
  or off: every dictionary that existed before the call holds the same items after it.  What the
  call returns and what it does to the files is what the first model says of the item's
  value.  With dumping on, a call that names the item allocates one new dictionary, the copy
  with \<^verbatim>\<open>snapUser\<close> set, and that is the one passed to \<^verbatim>\<open>dump_response\<close>.
\<close>

theorem media_unchanged:
  assumes "media < length h"
  shows "(case download_media_at self ext w h media username snap_user of
            (r, w', h') \<Rightarrow>
              h' ! media = h ! media
              \<and> take (length h) h' = h
              \<and> (r, w') = download_media self ext w (JObj (h ! media)) username snap_user
              \<and> (dump_json self \<and> (\<exists>v. r = Inr v) \<longrightarrow>
                   h' = h @ [dict_setitem (h ! media) ''snapUser'' snap_user]
                   \<and> fst (last (dumped w')) = JObj (last h')))"
proof (cases "name_media self ext w (JObj (h ! media)) username")
  case (Pair r w1)
  show ?thesis
  proof (cases r)
    case (Inl e)
    with Pair show ?thesis
      by (simp add: download_media_at_def download_media_def)
  next
    case (Inr v)
    obtain media_url dir_name filename where v: "v = (media_url, dir_name, filename)"
      by (cases v)
    show ?thesis
    proof (cases "dump_json self")
      case False
      with Pair Inr v show ?thesis
        by (simp add: download_media_at_def download_media_def)
    next
      case True
      have "store_setitem (h @ [h ! media]) (length h) ''snapUser'' snap_user =
              h @ [dict_setitem (h ! media) ''snapUser'' snap_user]"
        by (simp add: store_setitem_def)
      with Pair Inr v True assms show ?thesis
        by (simp add: download_media_at_def download_media_def store_dict_def
            dump_response_def nth_append)
    qed
  qed
qed

theorem media_unchanged_witness:
  "(0::nat) < length [dict_items (demo_item ''abc'' (JInt 0) ''1700000000'')]
   \<and> (case download_media_at (demo_self\<lparr>dump_json := True\<rparr>) demo_ext world0
             [dict_items (demo_item ''abc'' (JInt 0) ''1700000000'')] 0 ''alice''
             (JObj [(''username'', JStr ''alice'')]) of
         (r, w', h') \<Rightarrow>
           r = Inr (JStr ''https://cdn.example/abc'',
                    ''/out/alice/2023-11-14/2023-11-14_22-13-20 abc alice.jpg'')
           \<and> h' ! 0 = dict_items (demo_item ''abc'' (JInt 0) ''1700000000'')
           \<and> map fst (h' ! 0) = [''snapId'', ''snapUrls'', ''snapMediaType'', ''timestampInSec'']
           \<and> map fst (h' ! 1) =
               [''snapId'', ''snapUrls'', ''snapMediaType'', ''timestampInSec'', ''snapUser''])"
proof -
  let ?item = "demo_item ''abc'' (JInt 0) ''1700000000''"
  let ?h = "[dict_items ?item]"
  let ?self = "demo_self\<lparr>dump_json := True\<rparr>"
  let ?user = "JObj [(''username'', JStr ''alice'')]"
  have len: "(0::nat) < length ?h" by simp
  have obj: "JObj (?h ! 0) = ?item"
    by (simp add: demo_item_def)
  have r: "fst (download_media ?self demo_ext world0 ?item ''alice'' ?user) =
             Inr (JStr ''https://cdn.example/abc'',
                  ''/out/alice/2023-11-14/2023-11-14_22-13-20 abc alice.jpg'')"
    using demo_download_media [of "JInt 0" "''jpg''" ?self world0 "''abc''" ?user]
    by (simp add: list_getitem_def)
  obtain r' w' h' where
    c: "download_media_at ?self demo_ext world0 ?h 0 ''alice'' ?user = (r', w', h')"
    by (cases "download_media_at ?self demo_ext world0 ?h 0 ''alice'' ?user")
  from media_unchanged [OF len, of ?self demo_ext world0 "''alice''" ?user] c
  have keep: "h' ! 0 = ?h ! 0"
    and same: "(r', w') = download_media ?self demo_ext world0 (JObj (?h ! 0)) ''alice'' ?user"
    and copy: "dump_json ?self \<and> (\<exists>v. r' = Inr v) \<longrightarrow>
                 h' = ?h @ [dict_setitem (?h ! 0) ''snapUser'' ?user]"
    by simp_all
  from same r obj have r': "r' = Inr (JStr ''https://cdn.example/abc'',
                  ''/out/alice/2023-11-14/2023-11-14_22-13-20 abc alice.jpg'')"
    by (metis fst_conv)
  with copy have h': "h' = ?h @ [dict_setitem (?h ! 0) ''snapUser'' ?user]"
    by simp
  from c r' keep h' show ?thesis
    by (simp add: demo_item_def)
qed

section \<open>Telling two file names apart\<close>











section \<open>The calendar\<close>








section \<open>Distinct items, distinct paths\<close>






end
